theory Spec2Isabelle
  imports Main "HOL-Library.Word"
begin

section \<open>Strings\<close>

text \<open>
  A JavaScript string is a sequence of 16-bit code units; \<open>length\<close> counts code units,
  as \<^verbatim>\<open>.length\<close> does. \<open>units\<close> writes an ASCII literal as such a sequence.
\<close>

type_synonym unit16 = "16 word"
type_synonym jsstring = "unit16 list"

definition units :: "string \<Rightarrow> jsstring" where
  "units cs = map of_char cs"

text \<open>
  \<^verbatim>\<open>String.prototype.toUpperCase\<close> maps every code point to its full Unicode uppercase
  mapping, which may be several code points long. \<open>upperUnit\<close> is that mapping on one code
  unit. It is exact on Basic Latin and Latin-1 and on every other unit whose uppercase
  mapping contains a Basic Latin letter (dotless i, long s, the ligatures ff, fi, fl,
  ffi, ffl, st and six letters with a combining mark). A digit is its own uppercase and
  appears in no other mapping. A unit outside that list (a surrogate half included) has
  an uppercase mapping made of units outside A-Z and 0-9 only; such a unit stands for its
  own mapping here.
\<close>

definition upperUnit :: "unit16 \<Rightarrow> unit16 list" where
  "upperUnit c =
     (if 0x61 \<le> c \<and> c \<le> 0x7A then [c - 0x20]
      else if c = 0xB5 then [0x39C]
      else if c = 0xDF then [0x53, 0x53]
      else if 0xE0 \<le> c \<and> c \<le> 0xFE \<and> c \<noteq> 0xF7 then [c - 0x20]
      else if c = 0xFF then [0x178]
      else if c = 0x131 then [0x49]
      else if c = 0x149 then [0x2BC, 0x4E]
      else if c = 0x17F then [0x53]
      else if c = 0x1F0 then [0x4A, 0x30C]
      else if c = 0x1E96 then [0x48, 0x331]
      else if c = 0x1E97 then [0x54, 0x308]
      else if c = 0x1E98 then [0x57, 0x30A]
      else if c = 0x1E99 then [0x59, 0x30A]
      else if c = 0x1E9A then [0x41, 0x2BE]
      else if c = 0xFB00 then [0x46, 0x46]
      else if c = 0xFB01 then [0x46, 0x49]
      else if c = 0xFB02 then [0x46, 0x4C]
      else if c = 0xFB03 then [0x46, 0x46, 0x49]
      else if c = 0xFB04 then [0x46, 0x46, 0x4C]
      else if c = 0xFB05 then [0x53, 0x54]
      else if c = 0xFB06 then [0x53, 0x54]
      else [c])"

definition toUpperCase :: "jsstring \<Rightarrow> jsstring" where
  "toUpperCase val = concat (map upperUnit val)"

text \<open>The character class \<^verbatim>\<open>[A-Z0-9]\<close> of the regular expression.\<close>

definition plateUnit :: "unit16 \<Rightarrow> bool" where
  "plateUnit c = ((0x41 \<le> c \<and> c \<le> 0x5A) \<or> (0x30 \<le> c \<and> c \<le> 0x39))"

text \<open>
  \<^verbatim>\<open>const normalizePlate = (val) => val.toUpperCase().replace(/[^A-Z0-9]/g, '')\<close>:
  replacing every unit outside the class by the empty string keeps the units inside it.
\<close>

definition normalizePlate :: "jsstring \<Rightarrow> jsstring" where
  "normalizePlate val = filter plateUnit (toUpperCase val)"

section \<open>Application state\<close>

text \<open>\<^verbatim>\<open>Plate\<close>: the field \<^verbatim>\<open>id\<close> is \<open>id_p\<close> here.\<close>

record Plate =
  id_p :: jsstring
  number :: jsstring
  createdAt :: nat

datatype AppMode = LIST | FLASH

text \<open>An entry of \<^verbatim>\<open>sessionLog\<close>: \<^verbatim>\<open>{number, time, match}\<close>.\<close>

record LogEntry =
  number_l :: jsstring
  time :: jsstring
  match :: bool

text \<open>
  The state hooks of \<^verbatim>\<open>App\<close> with their names, and what the component does to the
  world around it: \<open>clock\<close> is the wall clock in milliseconds, \<open>timeouts\<close> holds the due
  time of every pending \<^verbatim>\<open>setTimeout(() => setDetectedRecently(null), 5000)\<close>,
  \<open>audioPlays\<close> counts the calls of \<^verbatim>\<open>audioRef.current.play()\<close>, and \<open>requests\<close>
  lists the payloads sent to the external detection service.
\<close>

record App =
  plates :: "Plate list"
  mode :: AppMode
  newPlate :: jsstring
  isProcessing :: bool
  detectedRecently :: "jsstring option"
  sessionLog :: "LogEntry list"
  clock :: nat
  timeouts :: "nat list"
  audioPlays :: nat
  requests :: "jsstring list"

text \<open>The initial values of the hooks; nothing is pending.\<close>

definition initApp :: App where
  "initApp = \<lparr>plates = [], mode = LIST, newPlate = [], isProcessing = False,
     detectedRecently = None, sessionLog = [], clock = 0, timeouts = [],
     audioPlays = 0, requests = []\<rparr>"

section \<open>Watchlist\<close>

text \<open>
  The membership test \<^verbatim>\<open>plates.some(p => p.number === token)\<close>, written inline in
  \<^verbatim>\<open>addPlate\<close> and in \<^verbatim>\<open>processFrame\<close>.
\<close>

definition contains :: "Plate list \<Rightarrow> jsstring \<Rightarrow> bool" where
  "contains ps token = list_ex (\<lambda>p. number p = token) ps"

text \<open>
  The two \<^verbatim>\<open>alert\<close> exits of \<^verbatim>\<open>addPlate\<close>: "Plaque trop courte" and
  "Deja surveille".
\<close>

datatype error = TooShort | AlreadyWatched

definition setNewPlate :: "jsstring \<Rightarrow> App \<Rightarrow> App" where
  "setNewPlate raw s = s\<lparr>newPlate := raw\<rparr>"

text \<open>
  \<^verbatim>\<open>addPlate\<close> reads the input field \<^verbatim>\<open>newPlate\<close>; \<open>uuid\<close> is the value of
  \<^verbatim>\<open>crypto.randomUUID()\<close>. The result is the alert raised, if any, and the state after.
\<close>

definition addPlate :: "jsstring \<Rightarrow> App \<Rightarrow> error option \<times> App" where
  "addPlate uuid s =
     (let normalized = normalizePlate (newPlate s) in
      if length normalized < 4 then (Some TooShort, s)
      else if list_ex (\<lambda>p. number p = normalized) (plates s) then (Some AlreadyWatched, s)
      else (None, s\<lparr>plates := \<lparr>id_p = uuid, number = normalized, createdAt = clock s\<rparr> # plates s,
                     newPlate := []\<rparr>))"

definition removePlate :: "jsstring \<Rightarrow> App \<Rightarrow> App" where
  "removePlate i s = s\<lparr>plates := filter (\<lambda>p. id_p p \<noteq> i) (plates s)\<rparr>"

text \<open>The watchlists the application builds, starting from the empty one.\<close>

inductive watchlist :: "Plate list \<Rightarrow> bool" where
  empty: "watchlist []"
| added: "watchlist (plates s) \<Longrightarrow> watchlist (plates (snd (addPlate uuid s)))"
| removed: "watchlist (plates s) \<Longrightarrow> watchlist (plates (removePlate i s))"

section \<open>Detection service\<close>

text \<open>
  What \<^verbatim>\<open>ai.models.generateContent\<close> and the decoding of its response come to:
  the call is rejected; the response has no text; \<^verbatim>\<open>JSON.parse\<close> (or reading
  \<^verbatim>\<open>plates\<close> off the parsed value) throws; the parsed \<^verbatim>\<open>plates\<close> is not an array;
  or it is an array of strings.
\<close>

datatype reply = CallFails | NoText | ParseFails | NotArray | PlatesArray "jsstring list"

text \<open>The replies on which an exception reaches the \<^verbatim>\<open>catch\<close> block.\<close>

fun fails :: "reply \<Rightarrow> bool" where
  "fails CallFails = True"
| "fails ParseFails = True"
| "fails NoText = False"
| "fails NotArray = False"
| "fails (PlatesArray ps) = False"

text \<open>
  \<^verbatim>\<open>detectPlatesFromImage\<close>: the plates returned, and the payloads sent to the service
  by this call (none or one).
\<close>

definition detectPlatesFromImage ::
    "(jsstring \<Rightarrow> reply) \<Rightarrow> jsstring \<Rightarrow> jsstring list \<times> jsstring list" where
  "detectPlatesFromImage ai base64Image =
     (if base64Image = [] \<or> length base64Image < 50 then ([], [])
      else (case ai base64Image of
              CallFails \<Rightarrow> []
            | NoText \<Rightarrow> []
            | ParseFails \<Rightarrow> []
            | NotArray \<Rightarrow> []
            | PlatesArray ps \<Rightarrow> ps,
            [base64Image]))"

section \<open>The poller\<close>

text \<open>
  What one timer tick finds: whether the video and canvas elements are mounted, whether
  the video has \<^verbatim>\<open>HAVE_ENOUGH_DATA\<close>, whether \<^verbatim>\<open>getContext('2d')\<close> gives a context, and
  the payload \<^verbatim>\<open>dataUrl.split(',')[1]\<close> of the encoded frame.
\<close>

record Frame =
  videoRef :: bool
  canvasRef :: bool
  enoughData :: bool
  context2d :: bool
  base64 :: jsstring

text \<open>
  A detection call in flight: the \<^verbatim>\<open>plates\<close> its closure captured and the value its
  promise resolves to.
\<close>

record Pending =
  captured :: "Plate list"
  detected :: "jsstring list"

text \<open>\<^verbatim>\<open>processFrame\<close> up to its \<^verbatim>\<open>await\<close>.\<close>

definition processFrame_start ::
    "(jsstring \<Rightarrow> reply) \<Rightarrow> Frame \<Rightarrow> App \<Rightarrow> Pending option \<times> App" where
  "processFrame_start ai f s =
     (if \<not> videoRef f \<or> \<not> canvasRef f \<or> isProcessing s \<or> mode s \<noteq> FLASH then (None, s)
      else if \<not> enoughData f then (None, s)
      else let s1 = s\<lparr>isProcessing := True\<rparr> in
        if \<not> context2d f then (None, s1)
        else let (ds, sent) = detectPlatesFromImage ai (base64 f) in
          (Some \<lparr>captured = plates s, detected = ds\<rparr>, s1\<lparr>requests := requests s1 @ sent\<rparr>))"

text \<open>
  The body of \<^verbatim>\<open>detected.forEach\<close>. \<open>toLocaleTimeString\<close> formats the clock as
  \<^verbatim>\<open>toLocaleTimeString('fr-FR', {hour12: false})\<close> does; \<open>ps\<close> is the captured
  \<^verbatim>\<open>plates\<close>.
\<close>

definition onDetected :: "(nat \<Rightarrow> jsstring) \<Rightarrow> Plate list \<Rightarrow> App \<Rightarrow> jsstring \<Rightarrow> App" where
  "onDetected toLocaleTimeString ps s num =
     (let norm = normalizePlate num;
          isMatch = list_ex (\<lambda>p. number p = norm) ps;
          s1 = s\<lparr>sessionLog := take 10 (\<lparr>number_l = norm, time = toLocaleTimeString (clock s),
                                          match = isMatch\<rparr> # sessionLog s)\<rparr>
      in if isMatch
         then s1\<lparr>audioPlays := audioPlays s1 + 1,
                detectedRecently := Some norm,
                timeouts := timeouts s1 @ [clock s1 + 5000]\<rparr>
         else s1)"

text \<open>
  \<^verbatim>\<open>processFrame\<close> from the moment the promise resolves: the \<^verbatim>\<open>forEach\<close>, then the
  \<^verbatim>\<open>finally\<close> block.
\<close>

definition processFrame_resume :: "(nat \<Rightarrow> jsstring) \<Rightarrow> Pending \<Rightarrow> App \<Rightarrow> App" where
  "processFrame_resume toLocaleTimeString p s =
     (foldl (onDetected toLocaleTimeString (captured p)) s (detected p))\<lparr>isProcessing := False\<rparr>"

definition setMode :: "AppMode \<Rightarrow> App \<Rightarrow> App" where
  "setMode m s = s\<lparr>mode := m\<rparr>"

text \<open>
  Time passes until \<open>t\<close>: every pending timeout that is due by then runs its callback
  \<^verbatim>\<open>setDetectedRecently(null)\<close> and is gone; a timeout never runs before it is due.
\<close>

definition advance :: "nat \<Rightarrow> App \<Rightarrow> App" where
  "advance t s =
     s\<lparr>clock := max (clock s) t,
       detectedRecently := (if list_ex (\<lambda>d. d \<le> t) (timeouts s) then None else detectedRecently s),
       timeouts := filter (\<lambda>d. t < d) (timeouts s)\<rparr>"

section \<open>Runs of the poller\<close>

text \<open>
  The entry that the body of \<^verbatim>\<open>forEach\<close> puts in front of the log for the detection \<open>num\<close>.
\<close>

definition entryOf :: "(nat \<Rightarrow> jsstring) \<Rightarrow> Plate list \<Rightarrow> App \<Rightarrow> jsstring \<Rightarrow> LogEntry" where
  "entryOf toLocaleTimeString ps s num =
     \<lparr>number_l = normalizePlate num, time = toLocaleTimeString (clock s),
      match = contains ps (normalizePlate num)\<rparr>"



section \<open>Example states\<close>

text \<open>
  A watchlist holding AB123AA.
\<close>

definition store1 :: App where
  "store1 = initApp\<lparr>plates := [\<lparr>id_p = units ''id-0'', number = units ''AB123AA'', createdAt = 7\<rparr>]\<rparr>"

text \<open>
  The watchlist after typing and adding AB-123-AA and then CD-456-EF.
\<close>

definition store2 :: App where
  "store2 = snd (addPlate (units ''id-2'') (setNewPlate (units ''cd-456-ef'')
              (snd (addPlate (units ''id-1'') (setNewPlate (units ''ab-123-aa'') initApp)))))"

text \<open>
  A frame of a playing video with a 64-unit payload.
\<close>

definition frame0 :: Frame where
  "frame0 = \<lparr>videoRef = True, canvasRef = True, enoughData = True, context2d = True,
             base64 = replicate 64 0x41\<rparr>"

text \<open>
  A detection service that reads AB-123-AA off every frame, and one whose every call fails.
\<close>

definition ai0 :: "jsstring \<Rightarrow> reply" where
  "ai0 b = PlatesArray [units ''AB-123-AA'']"

definition down :: reply where
  "down = CallFails"

text \<open>
  A clock display that stands at noon.
\<close>

definition noon :: "nat \<Rightarrow> jsstring" where
  "noon t = units ''12:00:00''"

text \<open>
  The call that the first tick on \<open>store2\<close> has in flight when the service is \<open>ai0\<close>, and
  the one it has in flight when the service is \<open>down\<close>.
\<close>

definition late0 :: Pending where
  "late0 = \<lparr>captured = plates store2, detected = [units ''AB-123-AA'']\<rparr>"

definition failed0 :: Pending where
  "failed0 = \<lparr>captured = plates store2, detected = []\<rparr>"

text \<open>
  A match at time 0, and the same followed by a second match at time 3000.
\<close>

definition oneMatch :: App where
  "oneMatch = onDetected noon (plates store2) store2 (units ''AB-123-AA'')"

definition twoMatches :: App where
  "twoMatches = onDetected noon (plates store2)
       (advance 3000 (onDetected noon (plates store2) store2 (units ''AB-123-AA'')))
       (units ''CD-456-EF'')"



section \<open>Normalizer\<close>

lemma plateUnit_upperUnit: "plateUnit c \<Longrightarrow> upperUnit c = [c]"
  unfolding plateUnit_def upperUnit_def
  by (auto simp: word_le_nat_alt word_less_nat_alt)

lemma toUpperCase_plateUnits: "list_all plateUnit xs \<Longrightarrow> toUpperCase xs = xs"
  by (induction xs) (simp_all add: toUpperCase_def plateUnit_upperUnit)

lemma normalizePlate_plateUnits: "list_all plateUnit (normalizePlate val)"
  by (simp add: normalizePlate_def list_all_iff)

text \<open>
  C9: the normalizer is idempotent: normalizing a normalized token gives the same token,
  for every raw string.
\<close>

theorem normalizePlate_idempotent: "normalizePlate (normalizePlate s) = normalizePlate s"
proof -
  have kept: "list_all plateUnit (normalizePlate s)"
    by (rule normalizePlate_plateUnits)
  then have "toUpperCase (normalizePlate s) = normalizePlate s"
    by (rule toUpperCase_plateUnits)
  then have "normalizePlate (normalizePlate s) = filter plateUnit (normalizePlate s)"
    by (simp add: normalizePlate_def)
  also have "\<dots> = normalizePlate s"
    using kept by (simp add: list_all_iff)
  finally show ?thesis .
qed

section \<open>Adding and removing plates\<close>

lemmas norm_defs = normalizePlate_def toUpperCase_def upperUnit_def plateUnit_def units_def

lemma norm_ab_12: "normalizePlate (units ''ab-12'') = units ''AB12''"
  by (simp add: norm_defs)

lemma norm_ab1_2: "normalizePlate (units ''ab1-2'') = units ''AB12''"
  by (simp add: norm_defs)

lemma norm_xyz: "normalizePlate (units ''xyz'') = units ''XYZ''"
  by (simp add: norm_defs)

lemma norm_ab_123_aa: "normalizePlate (units ''ab-123-aa'') = units ''AB123AA''"
  by (simp add: norm_defs)

lemma norm_AB_123_AA: "normalizePlate (units ''AB-123-AA'') = units ''AB123AA''"
  by (simp add: norm_defs)

lemma norm_cd_456_ef: "normalizePlate (units ''CD-456-EF'') = units ''CD456EF''"
  by (simp add: norm_defs)

lemma addPlate_TooShort:
  "length (normalizePlate (newPlate s)) < 4 \<Longrightarrow> addPlate uuid s = (Some TooShort, s)"
  by (simp add: addPlate_def)

lemma addPlate_AlreadyWatched:
  "4 \<le> length (normalizePlate (newPlate s)) \<Longrightarrow> contains (plates s) (normalizePlate (newPlate s))
   \<Longrightarrow> addPlate uuid s = (Some AlreadyWatched, s)"
  by (simp add: addPlate_def contains_def)

lemma addPlate_added:
  "4 \<le> length (normalizePlate (newPlate s)) \<Longrightarrow> \<not> contains (plates s) (normalizePlate (newPlate s))
   \<Longrightarrow> addPlate uuid s =
        (None, s\<lparr>plates := \<lparr>id_p = uuid, number = normalizePlate (newPlate s), createdAt = clock s\<rparr> # plates s,
                 newPlate := []\<rparr>)"
  by (simp add: addPlate_def contains_def Let_def)

text \<open>
  C1, as stated, fails: on the empty watchlist, adding "ab-12" raises no alert and stores
  the token AB12.
\<close>

theorem addPlate_ab_12_succeeds:
  "\<not> contains (plates initApp) (units ''AB12'') \<and>
   fst (addPlate (units ''id-1'') (setNewPlate (units ''ab-12'') initApp)) = None \<and>
   map number (plates (snd (addPlate (units ''id-1'') (setNewPlate (units ''ab-12'') initApp)))) = [units ''AB12'']"
  by (simp add: addPlate_def setNewPlate_def initApp_def contains_def norm_ab_12 Let_def)
     (simp add: units_def)

text \<open>
  C1 (amended): a raw input whose token is shorter than 4 is refused with
  \<open>TooShort\<close> and the state stays as it was; a raw input whose token has length exactly 4
  and is not watched yet is added in front. So "xyz" is refused on every watchlist, and on a
  watchlist without AB12 both "ab-12" and "ab1-2" are added with the token AB12.
\<close>

theorem addPlate_length_boundary:
  "(length (normalizePlate raw) < 4 \<longrightarrow>
      addPlate uuid (setNewPlate raw s) = (Some TooShort, setNewPlate raw s)) \<and>
   (length (normalizePlate raw) = 4 \<and> \<not> contains (plates s) (normalizePlate raw) \<longrightarrow>
      addPlate uuid (setNewPlate raw s) =
        (None, s\<lparr>plates := \<lparr>id_p = uuid, number = normalizePlate raw, createdAt = clock s\<rparr> # plates s,
                 newPlate := []\<rparr>)) \<and>
   addPlate uuid (setNewPlate (units ''xyz'') s) = (Some TooShort, setNewPlate (units ''xyz'') s) \<and>
   (\<not> contains (plates s) (units ''AB12'') \<longrightarrow>
      addPlate uuid (setNewPlate (units ''ab-12'') s) =
        (None, s\<lparr>plates := \<lparr>id_p = uuid, number = units ''AB12'', createdAt = clock s\<rparr> # plates s,
                 newPlate := []\<rparr>) \<and>
      addPlate uuid (setNewPlate (units ''ab1-2'') s) =
        (None, s\<lparr>plates := \<lparr>id_p = uuid, number = units ''AB12'', createdAt = clock s\<rparr> # plates s,
                 newPlate := []\<rparr>))"
proof -
  have len: "length (units ''AB12'') = 4" "length (units ''XYZ'') < 4"
    by (simp_all add: units_def)
  have short: "length (normalizePlate raw) < 4 \<longrightarrow>
      addPlate uuid (setNewPlate raw s) = (Some TooShort, setNewPlate raw s)" for raw
    by (simp add: addPlate_TooShort setNewPlate_def)
  have long: "length (normalizePlate raw) = 4 \<and> \<not> contains (plates s) (normalizePlate raw) \<longrightarrow>
      addPlate uuid (setNewPlate raw s) =
        (None, s\<lparr>plates := \<lparr>id_p = uuid, number = normalizePlate raw, createdAt = clock s\<rparr> # plates s,
                 newPlate := []\<rparr>)" for raw
    by (simp add: addPlate_added setNewPlate_def)
  show ?thesis
    using short [of raw] long [of raw] short [of "units ''xyz''"]
      long [of "units ''ab-12''"] long [of "units ''ab1-2''"] len
    by (simp add: norm_ab_12 norm_ab1_2 norm_xyz)
qed

text \<open>
  The boundary on the empty watchlist: "a-b.c" (token ABC) is refused, "ab-12" and
  "ab1-2" are added.
\<close>

theorem addPlate_length_boundary_witness:
  "length (normalizePlate (units ''a-b.c'')) < 4 \<and>
   addPlate (units ''id-1'') (setNewPlate (units ''a-b.c'') initApp)
     = (Some TooShort, setNewPlate (units ''a-b.c'') initApp) \<and>
   length (normalizePlate (units ''ab-12'')) = 4 \<and>
   \<not> contains (plates initApp) (units ''AB12'') \<and>
   addPlate (units ''id-1'') (setNewPlate (units ''ab-12'') initApp)
     = (None, initApp\<lparr>plates := [\<lparr>id_p = units ''id-1'', number = units ''AB12'', createdAt = 0\<rparr>],
                      newPlate := []\<rparr>) \<and>
   addPlate (units ''id-1'') (setNewPlate (units ''ab1-2'') initApp)
     = (None, initApp\<lparr>plates := [\<lparr>id_p = units ''id-1'', number = units ''AB12'', createdAt = 0\<rparr>],
                      newPlate := []\<rparr>)"
proof -
  have n: "normalizePlate (units ''a-b.c'') = units ''ABC''"
    by (simp add: norm_defs)
  have l: "length (units ''ABC'') < 4" "length (units ''AB12'') = 4"
    by (simp_all add: units_def)
  have c: "\<not> contains (plates initApp) (units ''AB12'')"
    by (simp add: contains_def initApp_def)
  have i: "plates initApp = []" "clock initApp = 0"
    by (simp_all add: initApp_def)
  show ?thesis
    using addPlate_length_boundary [of "units ''a-b.c''" "units ''id-1''" initApp]
      addPlate_length_boundary [of "units ''ab-12''" "units ''id-1''" initApp] n l c i
    by (simp add: norm_ab_12)
qed

lemma contains_set: "contains ps token \<longleftrightarrow> token \<in> number ` set ps"
  by (auto simp: contains_def list_ex_iff)

text \<open>
  C6: when the token of the raw input is already watched, \<^verbatim>\<open>addPlate\<close> raises an alert
  (\<open>AlreadyWatched\<close>, or \<open>TooShort\<close> if that token is shorter than 4) and leaves the
  state, and so the watchlist, as it was, whatever the formatting of the raw input.
\<close>

theorem addPlate_duplicate_rejected:
  "contains (plates s) (normalizePlate raw) \<Longrightarrow>
     fst (addPlate uuid (setNewPlate raw s))
       = Some (if length (normalizePlate raw) < 4 then TooShort else AlreadyWatched) \<and>
     snd (addPlate uuid (setNewPlate raw s)) = setNewPlate raw s \<and>
     plates (snd (addPlate uuid (setNewPlate raw s))) = plates s"
  by (simp add: addPlate_def setNewPlate_def contains_def)

text \<open>
  The watchlist holds AB123AA and "ab-123-aa" is refused as already watched.
\<close>

theorem addPlate_duplicate_rejected_witness:
  "contains (plates store1) (normalizePlate (units ''ab-123-aa'')) \<and>
   fst (addPlate (units ''id-1'') (setNewPlate (units ''ab-123-aa'') store1)) = Some AlreadyWatched \<and>
   plates (snd (addPlate (units ''id-1'') (setNewPlate (units ''ab-123-aa'') store1))) = plates store1"
proof -
  have c: "contains (plates store1) (normalizePlate (units ''ab-123-aa''))"
    by (simp add: norm_ab_123_aa contains_def store1_def initApp_def)
  have l: "\<not> length (normalizePlate (units ''ab-123-aa'')) < 4"
    by (simp add: norm_ab_123_aa) (simp add: units_def)
  show ?thesis
    using addPlate_duplicate_rejected [OF c, of "units ''id-1''"] c l by (simp add: setNewPlate_def)
qed

lemma addPlate_distinct:
  "distinct (map number (plates s)) \<Longrightarrow> distinct (map number (plates (snd (addPlate uuid s))))"
  by (auto simp: addPlate_def Let_def list_ex_iff)

lemma removePlate_distinct:
  "distinct (map number (plates s)) \<Longrightarrow> distinct (map number (plates (removePlate i s)))"
  by (simp add: removePlate_def distinct_map_filter)

lemma watchlist_distinct: "watchlist ps \<Longrightarrow> distinct (map number ps)"
  by (induction rule: watchlist.induct) (simp_all add: addPlate_distinct removePlate_distinct)

lemma removePlate_absent:
  "distinct (map number ps) \<Longrightarrow> p \<in> set ps \<Longrightarrow>
     number p \<notin> number ` set (filter (\<lambda>q. id_p q \<noteq> id_p p) ps)"
proof
  assume d: "distinct (map number ps)" and p: "p \<in> set ps"
    and "number p \<in> number ` set (filter (\<lambda>q. id_p q \<noteq> id_p p) ps)"
  then obtain q where q: "q \<in> set ps" "id_p q \<noteq> id_p p" "number q = number p"
    by auto
  from d have "inj_on number (set ps)"
    by (simp add: distinct_map)
  with p q have "q = p"
    by (auto dest: inj_onD)
  with q show False by simp
qed

text \<open>
  C8: on a watchlist built by the application, after removing the id of a plate of the
  list, the token of that plate is no longer contained; and removing an id that no plate
  has changes nothing, the length of the list included.
\<close>

theorem removePlate_then_contains:
  "(watchlist (plates s) \<and> p \<in> set (plates s) \<longrightarrow>
      \<not> contains (plates (removePlate (id_p p) s)) (number p)) \<and>
   (i \<notin> id_p ` set (plates s) \<longrightarrow>
      removePlate i s = s \<and> length (plates (removePlate i s)) = length (plates s))"
proof (intro conjI impI)
  assume "watchlist (plates s) \<and> p \<in> set (plates s)"
  then have "distinct (map number (plates s))" and "p \<in> set (plates s)"
    by (simp_all add: watchlist_distinct)
  then have "number p \<notin> number ` set (filter (\<lambda>q. id_p q \<noteq> id_p p) (plates s))"
    by (rule removePlate_absent)
  then show "\<not> contains (plates (removePlate (id_p p) s)) (number p)"
    by (simp add: contains_set removePlate_def)
next
  assume "i \<notin> id_p ` set (plates s)"
  then have "filter (\<lambda>p. id_p p \<noteq> i) (plates s) = plates s"
    by (intro filter_True) auto
  then show "removePlate i s = s" and "length (plates (removePlate i s)) = length (plates s)"
    by (simp_all add: removePlate_def)
qed

lemma watchlist_initApp: "watchlist (plates initApp)"
  by (simp add: initApp_def watchlist.empty)

lemma watchlist_typed:
  "watchlist (plates s) \<Longrightarrow> watchlist (plates (snd (addPlate uuid (setNewPlate raw s))))"
  by (rule watchlist.added) (simp add: setNewPlate_def)

lemma store2_plates:
  "plates store2 = [\<lparr>id_p = units ''id-2'', number = units ''CD456EF'', createdAt = 0\<rparr>,
                    \<lparr>id_p = units ''id-1'', number = units ''AB123AA'', createdAt = 0\<rparr>]"
proof -
  have n: "normalizePlate (units ''cd-456-ef'') = units ''CD456EF''"
    by (simp add: norm_defs)
  have l: "\<not> length (units ''AB123AA'') < 4" "\<not> length (units ''CD456EF'') < 4"
    "units ''CD456EF'' \<noteq> units ''AB123AA''" "units ''AB123AA'' \<noteq> units ''CD456EF''"
    by (simp_all add: units_def)
  show ?thesis
    by (simp add: store2_def addPlate_def setNewPlate_def initApp_def norm_ab_123_aa n l Let_def)
qed

lemma store2_fields: "timeouts store2 = []" "clock store2 = 0" "detectedRecently store2 = None"
  by (simp_all add: store2_def addPlate_def initApp_def setNewPlate_def Let_def)

lemma store2_contains:
  "contains (plates store2) (units ''AB123AA'')" "contains (plates store2) (units ''CD456EF'')"
  by (simp_all add: contains_def store2_plates)

text \<open>
  Removing id-1 from the watchlist of two plates, and removing an unknown id.
\<close>

theorem removePlate_then_contains_witness:
  "watchlist (plates store2) \<and>
   \<lparr>id_p = units ''id-1'', number = units ''AB123AA'', createdAt = 0\<rparr> \<in> set (plates store2) \<and>
   \<not> contains (plates (removePlate (units ''id-1'') store2)) (units ''AB123AA'') \<and>
   units ''id-9'' \<notin> id_p ` set (plates store2) \<and>
   removePlate (units ''id-9'') store2 = store2 \<and>
   length (plates (removePlate (units ''id-9'') store2)) = length (plates store2)"
proof -
  have w: "watchlist (plates store2)"
    unfolding store2_def by (intro watchlist_typed watchlist_initApp)
  have m: "\<lparr>id_p = units ''id-1'', number = units ''AB123AA'', createdAt = 0\<rparr> \<in> set (plates store2)"
    by (simp add: store2_plates)
  have a: "units ''id-9'' \<notin> id_p ` set (plates store2)"
    by (simp add: store2_plates) (simp add: units_def)
  show ?thesis
    using removePlate_then_contains [of store2 "\<lparr>id_p = units ''id-1'', number = units ''AB123AA'', createdAt = 0\<rparr>"
        "units ''id-9''"] w m a
    by simp
qed

section \<open>Detection call\<close>

text \<open>
  C10: on a payload shorter than 50 units, the empty one included,
  \<^verbatim>\<open>detectPlatesFromImage\<close> returns no plate and sends nothing to the service.
\<close>

theorem detectPlatesFromImage_small_payload:
  "length base64Image < 50 \<Longrightarrow> detectPlatesFromImage ai base64Image = ([], [])"
  by (simp add: detectPlatesFromImage_def)

text \<open>
  The empty payload and a 12-unit payload, with a service that would report a plate.
\<close>

theorem detectPlatesFromImage_small_payload_witness:
  "length ([] :: jsstring) < 50 \<and> length (units ''iVBORw0KGgo='') < 50 \<and>
    detectPlatesFromImage (\<lambda>b. PlatesArray [units ''AB123AA'']) [] = ([], []) \<and>
    detectPlatesFromImage (\<lambda>b. PlatesArray [units ''AB123AA'']) (units ''iVBORw0KGgo='') = ([], [])"
proof -
  have l: "length ([] :: jsstring) < 50" "length (units ''iVBORw0KGgo='') < 50"
    by (simp_all add: units_def)
  show ?thesis
    using l detectPlatesFromImage_small_payload [OF l(1)] detectPlatesFromImage_small_payload [OF l(2)] by simp
qed

lemma detect_fails: "fails (ai b) \<Longrightarrow> fst (detectPlatesFromImage ai b) = []"
  by (cases "ai b") (simp_all add: detectPlatesFromImage_def)

text \<open>
  C7: when the call to the service fails, \<^verbatim>\<open>detectPlatesFromImage\<close> returns the
  empty sequence. The tick that made the call has then changed neither the watchlist nor
  the log, the mode or the alert; when its call resolves, in whatever state \<open>s'\<close>, only
  the in-flight flag changes, to false; and the next tick on a playing video makes a call
  again.
\<close>

theorem detector_failure_swallowed:
  "fails (ai (base64 f)) \<Longrightarrow>
     fst (detectPlatesFromImage ai (base64 f)) = [] \<and>
     (processFrame_start ai f s = (Some p, s1) \<longrightarrow>
        detected p = [] \<and> plates s1 = plates s \<and> sessionLog s1 = sessionLog s \<and>
        mode s1 = FLASH \<and> detectedRecently s1 = detectedRecently s \<and>
        processFrame_resume toLocaleTimeString p s' = s'\<lparr>isProcessing := False\<rparr> \<and>
        (videoRef f' \<and> canvasRef f' \<and> enoughData f' \<and> context2d f' \<longrightarrow>
           fst (processFrame_start ai f' (processFrame_resume toLocaleTimeString p s1)) \<noteq> None))"
proof (intro conjI impI)
  assume fl: "fails (ai (base64 f))"
  then show e: "fst (detectPlatesFromImage ai (base64 f)) = []"
    by (rule detect_fails)
  assume st: "processFrame_start ai f s = (Some p, s1)"
  then have run: "mode s = FLASH"
    and p: "p = \<lparr>captured = plates s, detected = fst (detectPlatesFromImage ai (base64 f))\<rparr>"
    and s1: "s1 = s\<lparr>isProcessing := True,
                   requests := requests s @ snd (detectPlatesFromImage ai (base64 f))\<rparr>"
    by (auto simp: processFrame_start_def Let_def split: if_splits prod.splits)
  from p e show d: "detected p = []" by simp
  from s1 show "plates s1 = plates s" "sessionLog s1 = sessionLog s"
    "detectedRecently s1 = detectedRecently s" by simp_all
  from s1 run show "mode s1 = FLASH" by simp
  from d show r: "processFrame_resume toLocaleTimeString p s' = s'\<lparr>isProcessing := False\<rparr>" for s'
    by (simp add: processFrame_resume_def)
  assume "videoRef f' \<and> canvasRef f' \<and> enoughData f' \<and> context2d f'"
  with s1 run show "fst (processFrame_start ai f' (processFrame_resume toLocaleTimeString p s1)) \<noteq> None"
    by (simp add: r processFrame_start_def Let_def split: prod.splits)
qed

text \<open>
  A tick on \<open>store2\<close> in capture mode while the service is down.
\<close>

theorem detector_failure_swallowed_witness:
  "fails ((\<lambda>b. down) (base64 frame0)) \<and>
   fst (detectPlatesFromImage (\<lambda>b. down) (base64 frame0)) = [] \<and>
   processFrame_start (\<lambda>b. down) frame0 (setMode FLASH store2)
     = (Some failed0, (setMode FLASH store2)\<lparr>isProcessing := True, requests := [base64 frame0]\<rparr>) \<and>
   processFrame_resume noon failed0
       ((setMode FLASH store2)\<lparr>isProcessing := True, requests := [base64 frame0]\<rparr>)
     = (setMode FLASH store2)\<lparr>isProcessing := False, requests := [base64 frame0]\<rparr> \<and>
   fst (processFrame_start (\<lambda>b. down) frame0 (processFrame_resume noon failed0
       ((setMode FLASH store2)\<lparr>isProcessing := True, requests := [base64 frame0]\<rparr>))) \<noteq> None"
proof -
  let ?s1 = "(setMode FLASH store2)\<lparr>isProcessing := True, requests := [base64 frame0]\<rparr>"
  have fl: "fails ((\<lambda>b. down) (base64 frame0))"
    by (simp add: down_def)
  have d: "detectPlatesFromImage (\<lambda>b. down) (base64 frame0) = ([], [base64 frame0])"
    by (simp add: detectPlatesFromImage_def down_def frame0_def)
  have r: "requests store2 = []" "isProcessing store2 = False"
    by (simp_all add: store2_def addPlate_def initApp_def setNewPlate_def Let_def)
  have st: "processFrame_start (\<lambda>b. down) frame0 (setMode FLASH store2) = (Some failed0, ?s1)"
    using d r by (simp add: processFrame_start_def setMode_def failed0_def)
       (simp add: frame0_def)
  have g: "videoRef frame0 \<and> canvasRef frame0 \<and> enoughData frame0 \<and> context2d frame0"
    by (simp add: frame0_def)
  note th = detector_failure_swallowed [where ai = "\<lambda>b. down" and f = frame0 and s = "setMode FLASH store2"
        and p = failed0 and ?s1.0 = ?s1 and toLocaleTimeString = noon and s' = ?s1 and f' = frame0,
        OF fl]
  from th st g have a: "fst (detectPlatesFromImage (\<lambda>b. down) (base64 frame0)) = []"
    and b: "processFrame_resume noon failed0 ?s1 = ?s1\<lparr>isProcessing := False\<rparr>"
    and c: "fst (processFrame_start (\<lambda>b. down) frame0 (processFrame_resume noon failed0 ?s1)) \<noteq> None"
    by blast+
  have "?s1\<lparr>isProcessing := False\<rparr>
      = (setMode FLASH store2)\<lparr>isProcessing := False, requests := [base64 frame0]\<rparr>"
    by simp
  with fl a st b c show ?thesis
    by (simp only: simp_thms)
qed

section \<open>Single flight\<close>

lemma processFrame_start_in_flight:
  "isProcessing s \<Longrightarrow> processFrame_start ai f s = (None, s)"
  by (simp add: processFrame_start_def)

lemma processFrame_start_not_capturing:
  "mode s \<noteq> FLASH \<Longrightarrow> processFrame_start ai f s = (None, s)"
  by (simp add: processFrame_start_def)

lemma processFrame_start_requests:
  "isProcessing s \<Longrightarrow> requests (snd (processFrame_start ai f s)) = requests s"
  by (simp add: processFrame_start_in_flight)

lemma processFrame_resume_clears: "\<not> isProcessing (processFrame_resume fmt p s)"
  by (simp add: processFrame_resume_def)

text \<open>
  C2 fails on one exit: a tick that passes the guards and gets no 2D context has set
  the in-flight flag, makes no call and returns with the flag set; every later tick finds
  the flag set and is skipped, so nothing clears it.
\<close>

theorem processFrame_flag_stuck_without_context:
  "processFrame_start ai (f\<lparr>videoRef := True, canvasRef := True, enoughData := True, context2d := False\<rparr>)
      (s\<lparr>mode := FLASH, isProcessing := False\<rparr>)
     = (None, s\<lparr>mode := FLASH, isProcessing := True\<rparr>) \<and>
   processFrame_start ai f' (s\<lparr>mode := FLASH, isProcessing := True\<rparr>)
     = (None, s\<lparr>mode := FLASH, isProcessing := True\<rparr>)"
  by (simp add: processFrame_start_def)

text \<open>
  The same on \<open>store2\<close> in capture mode.
\<close>

theorem processFrame_flag_stuck_witness:
  "processFrame_start ai0
      (frame0\<lparr>videoRef := True, canvasRef := True, enoughData := True, context2d := False\<rparr>)
      (store2\<lparr>mode := FLASH, isProcessing := False\<rparr>)
     = (None, store2\<lparr>mode := FLASH, isProcessing := True\<rparr>) \<and>
   processFrame_start ai0 frame0 (store2\<lparr>mode := FLASH, isProcessing := True\<rparr>)
     = (None, store2\<lparr>mode := FLASH, isProcessing := True\<rparr>)"
  by (rule processFrame_flag_stuck_without_context)

section \<open>Session log\<close>

lemma onDetected_sessionLog:
  "sessionLog (onDetected fmt ps s num) = take 10 (entryOf fmt ps s num # sessionLog s)"
  by (simp add: onDetected_def entryOf_def contains_def Let_def)

lemma onDetected_clock: "clock (onDetected fmt ps s num) = clock s"
  by (simp add: onDetected_def Let_def)

lemma entryOf_onDetected: "entryOf fmt ps (onDetected fmt' ps' s num') = entryOf fmt ps s"
  by (rule ext) (simp add: entryOf_def onDetected_clock)

lemma take_append_take: "take n (xs @ take n ys) = take n (xs @ ys)"
  by (simp add: min_def)

lemma foldl_onDetected_clock: "clock (foldl (onDetected fmt ps) s ds) = clock s"
  by (induction ds arbitrary: s) (simp_all add: onDetected_clock)

lemma forEach_sessionLog:
  "ds \<noteq> [] \<or> length (sessionLog s) \<le> 10 \<Longrightarrow>
   sessionLog (foldl (onDetected fmt ps) s ds)
     = take 10 (rev (map (entryOf fmt ps s) ds) @ sessionLog s)"
proof (induction ds arbitrary: s)
  case Nil
  then show ?case by simp
next
  case (Cons d ds)
  have "length (sessionLog (onDetected fmt ps s d)) \<le> 10"
    by (simp add: onDetected_sessionLog del: take_Suc_Cons)
  then have "sessionLog (foldl (onDetected fmt ps) (onDetected fmt ps s d) ds)
      = take 10 (rev (map (entryOf fmt ps (onDetected fmt ps s d)) ds)
                 @ sessionLog (onDetected fmt ps s d))"
    by (intro Cons.IH) simp
  also have "\<dots> = take 10 (rev (map (entryOf fmt ps s) ds) @ take 10 (entryOf fmt ps s d # sessionLog s))"
    by (simp only: onDetected_sessionLog entryOf_onDetected)
  also have "\<dots> = take 10 (rev (map (entryOf fmt ps s) ds) @ entryOf fmt ps s d # sessionLog s)"
    by (rule take_append_take)
  finally show ?case by simp
qed

lemma resume_sessionLog:
  "detected p \<noteq> [] \<or> length (sessionLog s) \<le> 10 \<Longrightarrow>
   sessionLog (processFrame_resume fmt p s)
     = take 10 (rev (map (entryOf fmt (captured p) s) (detected p)) @ sessionLog s)"
  by (simp add: processFrame_resume_def forEach_sessionLog)










section \<open>Results that arrive late\<close>

lemma onDetected_mode:
  "onDetected fmt ps (s\<lparr>mode := m\<rparr>) num = (onDetected fmt ps s num)\<lparr>mode := m\<rparr>"
  by (simp add: onDetected_def Let_def)

lemma forEach_mode:
  "foldl (onDetected fmt ps) (s\<lparr>mode := m\<rparr>) ds = (foldl (onDetected fmt ps) s ds)\<lparr>mode := m\<rparr>"
  by (induction ds arbitrary: s) (simp_all add: onDetected_mode)

lemma forEach_audioPlays:
  "audioPlays (foldl (onDetected fmt ps) s ds)
     = audioPlays s + length (filter (\<lambda>num. contains ps (normalizePlate num)) ds)"
  by (induction ds arbitrary: s) (simp_all add: onDetected_def contains_def Let_def)

lemma forEach_last_match:
  "ds \<noteq> [] \<Longrightarrow> contains ps (normalizePlate (last ds)) \<Longrightarrow>
     detectedRecently (foldl (onDetected fmt ps) s ds) = Some (normalizePlate (last ds))"
proof -
  assume "ds \<noteq> []" and m: "contains ps (normalizePlate (last ds))"
  then have "ds = butlast ds @ [last ds]" by simp
  then have "foldl (onDetected fmt ps) s ds
      = onDetected fmt ps (foldl (onDetected fmt ps) s (butlast ds)) (last ds)"
    by (metis foldl_Cons foldl_Nil foldl_append)
  with m show ?thesis
    by (simp add: onDetected_def contains_def Let_def)
qed

text \<open>
  C4 (amended): the mode is tested when a tick starts, and a tick outside capture mode
  does nothing; it is not tested when the result arrives. Resolving a call in a state set to
  any mode \<open>m\<close> gives the state that resolving it gives otherwise, set to \<open>m\<close>: in every
  mode the detections are put in front of the log, newest first, the sound is played once
  for every detection that matches, and when the last detection matches the alert is set to
  its token.
\<close>

theorem late_result_applied:
  "(mode s \<noteq> FLASH \<longrightarrow> processFrame_start ai f s = (None, s)) \<and>
   processFrame_resume toLocaleTimeString p (setMode m s)
     = setMode m (processFrame_resume toLocaleTimeString p s) \<and>
   (detected p \<noteq> [] \<longrightarrow>
      sessionLog (processFrame_resume toLocaleTimeString p s)
        = take 10 (rev (map (entryOf toLocaleTimeString (captured p) s) (detected p)) @ sessionLog s)) \<and>
   audioPlays (processFrame_resume toLocaleTimeString p s)
     = audioPlays s + length (filter (\<lambda>num. contains (captured p) (normalizePlate num)) (detected p)) \<and>
   (detected p \<noteq> [] \<and> contains (captured p) (normalizePlate (last (detected p))) \<longrightarrow>
      detectedRecently (processFrame_resume toLocaleTimeString p s)
        = Some (normalizePlate (last (detected p))))"
proof (intro conjI impI)
  assume "mode s \<noteq> FLASH"
  then show "processFrame_start ai f s = (None, s)"
    by (rule processFrame_start_not_capturing)
next
  show "processFrame_resume toLocaleTimeString p (setMode m s)
      = setMode m (processFrame_resume toLocaleTimeString p s)"
    by (simp add: processFrame_resume_def setMode_def forEach_mode)
next
  assume "detected p \<noteq> []"
  then show "sessionLog (processFrame_resume toLocaleTimeString p s)
      = take 10 (rev (map (entryOf toLocaleTimeString (captured p) s) (detected p)) @ sessionLog s)"
    by (simp add: resume_sessionLog)
next
  show "audioPlays (processFrame_resume toLocaleTimeString p s)
      = audioPlays s + length (filter (\<lambda>num. contains (captured p) (normalizePlate num)) (detected p))"
    by (simp add: processFrame_resume_def forEach_audioPlays)
next
  assume "detected p \<noteq> [] \<and> contains (captured p) (normalizePlate (last (detected p)))"
  then show "detectedRecently (processFrame_resume toLocaleTimeString p s)
      = Some (normalizePlate (last (detected p)))"
    by (simp add: processFrame_resume_def forEach_last_match)
qed

text \<open>
  No tick starts in list mode, and a result arriving in list mode is applied.
\<close>

theorem late_result_applied_witness:
  "mode initApp \<noteq> FLASH \<and> processFrame_start ai0 frame0 initApp = (None, initApp) \<and>
   mode (setMode LIST store2) = LIST \<and> detected late0 \<noteq> [] \<and>
   contains (captured late0) (normalizePlate (last (detected late0))) \<and>
   mode (processFrame_resume noon late0 (setMode LIST store2)) = LIST \<and>
   sessionLog (processFrame_resume noon late0 (setMode LIST store2))
     = [\<lparr>number_l = units ''AB123AA'', time = units ''12:00:00'', match = True\<rparr>] \<and>
   audioPlays (processFrame_resume noon late0 (setMode LIST store2)) = 1 \<and>
   detectedRecently (processFrame_resume noon late0 (setMode LIST store2)) = Some (units ''AB123AA'')"
proof -
  have i: "mode initApp \<noteq> FLASH"
    by (simp add: initApp_def)
  have d: "detected late0 \<noteq> []" "last (detected late0) = units ''AB-123-AA''"
    "detected late0 = [units ''AB-123-AA'']" "captured late0 = plates store2"
    by (simp_all add: late0_def)
  have c: "contains (plates store2) (units ''AB123AA'')"
    by (simp add: contains_def store2_plates)
  have f: "sessionLog (setMode LIST store2) = []" "audioPlays (setMode LIST store2) = 0"
    "clock (setMode LIST store2) = 0"
    by (simp_all add: setMode_def store2_def addPlate_def initApp_def setNewPlate_def Let_def)
  have e: "entryOf noon (plates store2) (setMode LIST store2) (units ''AB-123-AA'')
      = \<lparr>number_l = units ''AB123AA'', time = units ''12:00:00'', match = True\<rparr>"
    by (simp add: entryOf_def norm_AB_123_AA c noon_def)
  have m: "mode (setMode LIST (processFrame_resume noon late0 store2)) = LIST"
    "mode (setMode LIST store2) = LIST"
    by (simp_all add: setMode_def)
  show ?thesis
    using i m
      late_result_applied [of initApp ai0 frame0 noon late0 LIST]
      late_result_applied [of "setMode LIST store2" ai0 frame0 noon late0 LIST]
      late_result_applied [of store2 ai0 frame0 noon late0 LIST]
    by (simp add: d c f e norm_AB_123_AA)
qed

lemma start0:
  "processFrame_start ai0 frame0 (setMode FLASH store2)
     = (Some late0, (setMode FLASH store2)\<lparr>isProcessing := True, requests := [replicate 64 0x41]\<rparr>)"
proof -
  have "detectPlatesFromImage ai0 (replicate 64 0x41) = ([units ''AB-123-AA''], [replicate 64 0x41])"
    by (simp add: detectPlatesFromImage_def ai0_def)
  then show ?thesis
    by (simp add: processFrame_start_def frame0_def setMode_def late0_def store2_def
        addPlate_def initApp_def setNewPlate_def Let_def)
qed

text \<open>
  C4, as stated, fails: the tick starts in capture mode, the mode goes back to list
  while the call is in flight, and the result is still logged, raises the alert and plays
  the sound.
\<close>

theorem late_result_not_discarded:
  "fst (processFrame_start ai0 frame0 (setMode FLASH store2)) = Some late0 \<and>
   mode (processFrame_resume noon late0
           (setMode LIST (snd (processFrame_start ai0 frame0 (setMode FLASH store2))))) = LIST \<and>
   sessionLog (processFrame_resume noon late0
           (setMode LIST (snd (processFrame_start ai0 frame0 (setMode FLASH store2)))))
     = [\<lparr>number_l = units ''AB123AA'', time = units ''12:00:00'', match = True\<rparr>] \<and>
   detectedRecently (processFrame_resume noon late0
           (setMode LIST (snd (processFrame_start ai0 frame0 (setMode FLASH store2)))))
     = Some (units ''AB123AA'') \<and>
   audioPlays (processFrame_resume noon late0
           (setMode LIST (snd (processFrame_start ai0 frame0 (setMode FLASH store2))))) = 1"
proof -
  have m: "list_ex (\<lambda>p. number p = units ''AB123AA'') (plates store2)"
    by (simp add: store2_plates)
  have i: "sessionLog store2 = []" "audioPlays store2 = 0"
    by (simp_all add: store2_def addPlate_def initApp_def setNewPlate_def Let_def)
  show ?thesis
    unfolding start0 fst_conv snd_conv
    by (simp add: processFrame_resume_def late0_def onDetected_def norm_AB_123_AA m i
        setMode_def noon_def Let_def)
qed

section \<open>Alert\<close>

lemma onDetected_match:
  "contains ps (normalizePlate num) \<Longrightarrow>
     detectedRecently (onDetected fmt ps s num) = Some (normalizePlate num) \<and>
     timeouts (onDetected fmt ps s num) = timeouts s @ [clock s + 5000] \<and>
     audioPlays (onDetected fmt ps s num) = audioPlays s + 1"
  by (simp add: onDetected_def contains_def Let_def)

lemma onDetected_no_match:
  "\<not> contains ps (normalizePlate num) \<Longrightarrow>
     detectedRecently (onDetected fmt ps s num) = detectedRecently s \<and>
     timeouts (onDetected fmt ps s num) = timeouts s \<and>
     audioPlays (onDetected fmt ps s num) = audioPlays s"
  by (simp add: onDetected_def contains_def Let_def)

lemma advance_before_due:
  "list_all (\<lambda>d. t < d) (timeouts s) \<Longrightarrow>
     detectedRecently (advance t s) = detectedRecently s \<and> timeouts (advance t s) = timeouts s"
  by (auto simp: advance_def list_all_iff list_ex_iff intro: filter_True)

lemma advance_due:
  "list_ex (\<lambda>d. d \<le> t) (timeouts s) \<Longrightarrow> detectedRecently (advance t s) = None"
  by (simp add: advance_def)

lemma advance_clock: "clock (advance t s) = max (clock s) t"
  by (simp add: advance_def)

lemma advance_timeouts: "timeouts (advance t s) = filter (\<lambda>d. t < d) (timeouts s)"
  by (simp add: advance_def)

text \<open>
  C3 (amended): a detection that matches sets the alert to its token and schedules a clear
  5000 ms after that write, at the clock of that write, which the detection does not move;
  a detection that does not match leaves the alert and the scheduled clears alone. When
  time passes until \<open>t\<close>, exactly the clears due by \<open>t\<close> leave the schedule and every
  later one stays, whether or not another clear fires; the alert is unchanged while every
  scheduled clear is still in the future, and is cleared once one is due. So a clear never
  fires before the 5000 ms after the write that scheduled it. A second match before the
  first clear puts its token in the alert and schedules its own clear, and the first clear
  stays scheduled: the alert is cleared 5000 ms after the first match, and the clear of the
  second match stays scheduled for 5000 ms after the second.
\<close>

theorem alert_clear_timing:
  "(contains ps (normalizePlate num) \<longrightarrow>
      detectedRecently (onDetected toLocaleTimeString ps s num) = Some (normalizePlate num) \<and>
      timeouts (onDetected toLocaleTimeString ps s num) = timeouts s @ [clock s + 5000]) \<and>
   (\<not> contains ps (normalizePlate num) \<longrightarrow>
      detectedRecently (onDetected toLocaleTimeString ps s num) = detectedRecently s \<and>
      timeouts (onDetected toLocaleTimeString ps s num) = timeouts s) \<and>
   (list_all (\<lambda>d. t < d) (timeouts s) \<longrightarrow>
      detectedRecently (advance t s) = detectedRecently s \<and> timeouts (advance t s) = timeouts s) \<and>
   (list_ex (\<lambda>d. d \<le> t) (timeouts s) \<longrightarrow> detectedRecently (advance t s) = None) \<and>
   (contains ps (normalizePlate a) \<and> contains ps (normalizePlate b) \<and> timeouts s = [] \<and>
    clock s \<le> t1 \<and> t1 < clock s + 5000 \<longrightarrow>
      detectedRecently (onDetected toLocaleTimeString ps
          (advance t1 (onDetected toLocaleTimeString ps s a)) b) = Some (normalizePlate b) \<and>
      timeouts (onDetected toLocaleTimeString ps
          (advance t1 (onDetected toLocaleTimeString ps s a)) b) = [clock s + 5000, t1 + 5000] \<and>
      detectedRecently (advance (clock s + 5000) (onDetected toLocaleTimeString ps
          (advance t1 (onDetected toLocaleTimeString ps s a)) b)) = None \<and>
      timeouts (advance (clock s + 5000) (onDetected toLocaleTimeString ps
          (advance t1 (onDetected toLocaleTimeString ps s a)) b))
        = (if clock s < t1 then [t1 + 5000] else [])) \<and>
   timeouts (advance t s) = filter (\<lambda>d. t < d) (timeouts s) \<and>
   detectedRecently (advance t s)
     = (if list_ex (\<lambda>d. d \<le> t) (timeouts s) then None else detectedRecently s) \<and>
   clock (advance t s) = max (clock s) t \<and>
   clock (onDetected toLocaleTimeString ps s num) = clock s"
proof (intro conjI impI)
  let ?f = toLocaleTimeString
  assume h: "contains ps (normalizePlate a) \<and> contains ps (normalizePlate b) \<and> timeouts s = [] \<and>
    clock s \<le> t1 \<and> t1 < clock s + 5000"
  let ?s1 = "onDetected ?f ps s a"
  let ?s2 = "onDetected ?f ps (advance t1 ?s1) b"
  from h have t1: "timeouts ?s1 = [clock s + 5000]"
    by (simp add: onDetected_match)
  with h have a1: "timeouts (advance t1 ?s1) = [clock s + 5000]"
    by (simp add: advance_before_due)
  have c1: "clock (advance t1 ?s1) = t1"
    using h by (simp add: advance_clock onDetected_clock)
  from h show "detectedRecently ?s2 = Some (normalizePlate b)"
    by (simp add: onDetected_match)
  from h a1 c1 show t2: "timeouts ?s2 = [clock s + 5000, t1 + 5000]"
    by (simp add: onDetected_match)
  then show "detectedRecently (advance (clock s + 5000) ?s2) = None"
    by (simp add: advance_due)
  from t2 show "timeouts (advance (clock s + 5000) ?s2) = (if clock s < t1 then [t1 + 5000] else [])"
    by (simp add: advance_timeouts)
next
  show "detectedRecently (advance t s)
      = (if list_ex (\<lambda>d. d \<le> t) (timeouts s) then None else detectedRecently s)"
    by (simp add: advance_def)
next
  show "timeouts (advance t s) = filter (\<lambda>d. t < d) (timeouts s)"
    by (rule advance_timeouts)
qed (simp_all add: onDetected_match onDetected_no_match advance_before_due advance_due
    advance_clock onDetected_clock)

text \<open>
  Matches of AB-123-AA at 0 and CD-456-EF at 3000 on \<open>store2\<close>, and a detection
  zz-999-zz that does not match. At 5000 the first clear fires and the second stays
  scheduled for 8000; the alert of a third match at 5001 is still there at 7999 and is
  cleared at 8000.
\<close>

theorem alert_clear_timing_witness:
  "contains (plates store2) (normalizePlate (units ''AB-123-AA'')) \<and>
   detectedRecently oneMatch = Some (units ''AB123AA'') \<and>
   timeouts oneMatch = [5000] \<and>
   \<not> contains (plates store2) (normalizePlate (units ''zz-999-zz'')) \<and>
   detectedRecently (onDetected noon (plates store2) oneMatch (units ''zz-999-zz''))
     = Some (units ''AB123AA'') \<and>
   list_all (\<lambda>d. 4999 < d) (timeouts oneMatch) \<and>
   detectedRecently (advance 4999 oneMatch) = Some (units ''AB123AA'') \<and>
   list_ex (\<lambda>d. d \<le> 5000) (timeouts oneMatch) \<and>
   detectedRecently (advance 5000 oneMatch) = None \<and>
   contains (plates store2) (normalizePlate (units ''CD-456-EF'')) \<and>
   timeouts store2 = [] \<and> clock store2 \<le> 3000 \<and> 3000 < clock store2 + 5000 \<and>
   detectedRecently twoMatches = Some (units ''CD456EF'') \<and>
   timeouts twoMatches = [5000, 8000] \<and>
   detectedRecently (advance 5000 twoMatches) = None \<and>
   timeouts (advance 5000 twoMatches) = [8000] \<and>
   detectedRecently (onDetected noon (plates store2) (advance 5001 twoMatches) (units ''AB-123-AA''))
     = Some (units ''AB123AA'') \<and>
   timeouts (onDetected noon (plates store2) (advance 5001 twoMatches) (units ''AB-123-AA''))
     = [8000, 10001] \<and>
   detectedRecently (advance 7999
       (onDetected noon (plates store2) (advance 5001 twoMatches) (units ''AB-123-AA'')))
     = Some (units ''AB123AA'') \<and>
   detectedRecently (advance 8000
       (onDetected noon (plates store2) (advance 5001 twoMatches) (units ''AB-123-AA'')))
     = None \<and>
   timeouts (advance 8000
       (onDetected noon (plates store2) (advance 5001 twoMatches) (units ''AB-123-AA'')))
     = [10001]"
proof -
  have ca: "contains (plates store2) (normalizePlate (units ''AB-123-AA''))"
    and cb: "contains (plates store2) (normalizePlate (units ''CD-456-EF''))"
    by (simp_all add: norm_AB_123_AA norm_cd_456_ef store2_contains)
  have nz: "normalizePlate (units ''zz-999-zz'') = units ''ZZ999ZZ''"
    by (simp add: norm_defs)
  have cz: "\<not> contains (plates store2) (normalizePlate (units ''zz-999-zz''))"
    unfolding nz by (simp add: contains_def store2_plates) (simp add: units_def)
  note one = alert_clear_timing [of "plates store2" "units ''AB-123-AA''" noon store2 0
      "units ''AB-123-AA''" "units ''CD-456-EF''" 3000, folded oneMatch_def twoMatches_def]
  from one ca have m: "detectedRecently oneMatch = Some (units ''AB123AA'')"
    "timeouts oneMatch = [5000]"
    by (simp_all add: norm_AB_123_AA store2_fields)
  from one ca cb have two: "detectedRecently twoMatches = Some (units ''CD456EF'')"
    "timeouts twoMatches = [5000, 8000]" "detectedRecently (advance 5000 twoMatches) = None"
    "timeouts (advance 5000 twoMatches) = [8000]"
    by (simp_all add: norm_cd_456_ef store2_fields)
  have la: "list_all (\<lambda>d. 4999 < d) (timeouts oneMatch)"
    and le: "list_ex (\<lambda>d. d \<le> 5000) (timeouts oneMatch)"
    by (simp_all add: m)
  from alert_clear_timing [of "plates store2" "units ''zz-999-zz''" noon oneMatch 4999] cz la m
  have quiet: "detectedRecently (onDetected noon (plates store2) oneMatch (units ''zz-999-zz''))
     = Some (units ''AB123AA'')" "detectedRecently (advance 4999 oneMatch) = Some (units ''AB123AA'')"
    by simp_all
  from alert_clear_timing [of "plates store2" "units ''zz-999-zz''" noon oneMatch 5000] le
  have gone: "detectedRecently (advance 5000 oneMatch) = None"
    by simp
  let ?s3 = "onDetected noon (plates store2) (advance 5001 twoMatches) (units ''AB-123-AA'')"
  have ck: "clock twoMatches = 3000"
    by (simp add: twoMatches_def onDetected_clock advance_clock store2_fields)
  from alert_clear_timing [of "plates store2" "units ''zz-999-zz''" noon twoMatches 5001] two ck
  have adv: "timeouts (advance 5001 twoMatches) = [8000]" "clock (advance 5001 twoMatches) = 5001"
    by (simp_all add: store2_fields)
  from alert_clear_timing [of "plates store2" "units ''AB-123-AA''" noon "advance 5001 twoMatches"] ca adv
  have three: "detectedRecently ?s3 = Some (units ''AB123AA'')" "timeouts ?s3 = [8000, 10001]"
    by (simp_all add: norm_AB_123_AA)
  from alert_clear_timing [of "plates store2" "units ''zz-999-zz''" noon ?s3 7999] three
  have kept: "detectedRecently (advance 7999 ?s3) = Some (units ''AB123AA'')"
    by simp
  from alert_clear_timing [of "plates store2" "units ''zz-999-zz''" noon ?s3 8000] three
  have fired: "detectedRecently (advance 8000 ?s3) = None" "timeouts (advance 8000 ?s3) = [10001]"
    by simp_all
  from ca cb cz m two la le quiet gone three kept fired show ?thesis
    by (simp add: store2_fields)
qed

text \<open>
  C3, as stated, fails: the second match at 3000 puts CD456EF in the alert, and at 5000,
  2000 ms after that write, the alert is empty.
\<close>

theorem alert_window_not_reset:
  "detectedRecently oneMatch = Some (units ''AB123AA'') \<and> clock oneMatch = 0 \<and>
   detectedRecently twoMatches = Some (units ''CD456EF'') \<and> clock twoMatches = 3000 \<and>
   detectedRecently (advance 5000 twoMatches) = None \<and>
   (5000 :: nat) < 3000 + 5000"
proof -
  have ca: "contains (plates store2) (normalizePlate (units ''AB-123-AA''))"
    and cb: "contains (plates store2) (normalizePlate (units ''CD-456-EF''))"
    by (simp_all add: norm_AB_123_AA norm_cd_456_ef store2_contains)
  have ta: "timeouts oneMatch = [5000]"
    unfolding oneMatch_def using onDetected_match [OF ca, of noon store2] by (simp add: store2_fields)
  then have "timeouts (advance 3000 oneMatch) = [5000]"
    by (simp add: advance_before_due)
  then have "timeouts twoMatches = [5000, 8000]"
    unfolding twoMatches_def oneMatch_def [symmetric]
    using onDetected_match [OF cb, of noon "advance 3000 oneMatch"]
    by (simp add: advance_clock oneMatch_def onDetected_clock store2_fields)
  then have "detectedRecently (advance 5000 twoMatches) = None"
    by (simp add: advance_due)
  moreover have "detectedRecently oneMatch = Some (units ''AB123AA'')"
    unfolding oneMatch_def using onDetected_match [OF ca, of noon store2] by (simp add: norm_AB_123_AA)
  moreover have "detectedRecently twoMatches = Some (units ''CD456EF'')"
    unfolding twoMatches_def using onDetected_match [OF cb] by (simp add: norm_cd_456_ef)
  moreover have "clock oneMatch = 0" "clock twoMatches = 3000"
    by (simp_all add: twoMatches_def oneMatch_def onDetected_clock advance_clock store2_fields)
  ultimately show ?thesis by simp
qed

end
